theory Spec2Isabelle
  imports Main "HOL-Library.Word"
begin

unbundle bit_operations_syntax

section \<open>Volume Control Profile: the data of src/shared/vcp.c\<close>

text \<open>
  The C structures are embedded as records. A pointer that the code tests against NULL is
  an \<open>option\<close> (\<open>None\<close> is NULL); the structure it designates is held by value, so a store
  through \<open>vcp->ldb->vcs->vstate\<close> is an update of the nested records of the session.
  Attributes of the GATT database (\<open>struct gatt_db_attribute *\<close>), GATT clients and sessions
  (\<open>struct bt_vcp *\<close>) are addresses, modelled as natural numbers.
\<close>

type_synonym uint8_t = "8 word"
type_synonym uint16_t = "16 word"
type_synonym int16_t = "16 word"

text \<open>\<open>struct iovec\<close>: \<open>iov_base\<close> designates the bytes that remain, \<open>iov_len\<close> is their number.\<close>

type_synonym iovec = "uint8_t list"

definition VCP_STEP_SIZE :: int where
  "VCP_STEP_SIZE = 1"

definition VOCS_VOL_OFFSET_UPPER_LIMIT :: int where
  "VOCS_VOL_OFFSET_UPPER_LIMIT = 255"

definition VOCS_VOL_OFFSET_LOWER_LIMIT :: int where
  "VOCS_VOL_OFFSET_LOWER_LIMIT = - 255"

definition BT_ATT_ERROR_INVALID_CHANGE_COUNTER :: uint8_t where
  "BT_ATT_ERROR_INVALID_CHANGE_COUNTER = 0x80"

definition BT_ATT_ERROR_OPCODE_NOT_SUPPORTED :: uint8_t where
  "BT_ATT_ERROR_OPCODE_NOT_SUPPORTED = 0x81"

definition BT_ATT_ERROR_VALUE_OUT_OF_RANGE :: uint8_t where
  "BT_ATT_ERROR_VALUE_OUT_OF_RANGE = 0x82"

text \<open>
  Modelled from the spec: the transport-standard codes \<open>InvalidOffset\<close>,
  \<open>InvalidAttributeValueLen\<close> and \<open>RequestNotSupported\<close> of section 6 are the macros
  \<open>BT_ATT_ERROR_INVALID_OFFSET\<close>, \<open>BT_ATT_ERROR_INVALID_ATTRIBUTE_VALUE_LEN\<close> and
  \<open>BT_ATT_ERROR_REQUEST_NOT_SUPPORTED\<close> of src/shared/att-types.h, a header that is not
  part of the sources at hand; they carry the numbers of the attribute protocol.
\<close>

definition BT_ATT_ERROR_REQUEST_NOT_SUPPORTED :: uint8_t where
  "BT_ATT_ERROR_REQUEST_NOT_SUPPORTED = 0x06"

definition BT_ATT_ERROR_INVALID_OFFSET :: uint8_t where
  "BT_ATT_ERROR_INVALID_OFFSET = 0x07"

definition BT_ATT_ERROR_INVALID_ATTRIBUTE_VALUE_LEN :: uint8_t where
  "BT_ATT_ERROR_INVALID_ATTRIBUTE_VALUE_LEN = 0x0D"

text \<open>\<open>struct vol_state\<close> (packed, three bytes).\<close>

record vol_state =
  vol_set :: uint8_t
  mute :: uint8_t
  counter :: uint8_t

text \<open>
  \<open>struct vol_offset_state\<close> (packed, three bytes). Its change counter is the field
  \<open>counter\<close> of the C structure; the record calls it \<open>vo_counter\<close> to keep it apart from
  the field of \<open>vol_state\<close>.
\<close>

record vol_offset_state =
  vol_offset :: int16_t
  vo_counter :: uint8_t

text \<open>
  \<open>struct bt_vcs\<close> and \<open>struct bt_vocs\<close>, with the fields the control points use: the
  state and the characteristic that is notified (\<open>vs\<close>, \<open>vos\<close>).
\<close>

record bt_vcs =
  vstate :: "vol_state option"
  vol_flag :: uint8_t
  vs :: nat

record bt_vocs =
  vostate :: "vol_offset_state option"
  vos :: nat

record bt_vcp_db =
  vcs :: "bt_vcs option"
  vocs :: "bt_vocs option"

text \<open>\<open>struct bt_vcp\<close>, a session: its local database, its GATT client and its bearer.\<close>

record bt_vcp =
  ldb :: "bt_vcp_db option"
  client :: "nat option"
  att :: "nat option"

text \<open>
  \<open>gatt_db_attribute_notify (attrib, value, len, att)\<close> belongs to the GATT database. A call
  is recorded as the attribute and the structure whose memory is sent.
\<close>

datatype payload = Vol_state vol_state | Vol_offset_state vol_offset_state

type_synonym notification = "nat \<times> payload"

text \<open>
  What a handler leaves behind: the code it returns, the session with the stores it made,
  and the notifications it sent, in order.
\<close>

type_synonym outcome = "uint8_t \<times> bt_vcp \<times> notification list"

section \<open>Helpers\<close>

text \<open>
  \<open>iov_pull_mem\<close>: NULL when fewer than \<open>len\<close> bytes remain; otherwise the \<open>len\<close> bytes at
  \<open>iov_base\<close>, and the vector advanced past them.
\<close>

definition iov_pull_mem :: "iovec \<Rightarrow> nat \<Rightarrow> (uint8_t list \<times> iovec) option" where
  "iov_pull_mem iov len =
     (if length iov < len then None else Some (take len iov, drop len iov))"

definition vcp_get_vdb :: "bt_vcp option \<Rightarrow> bt_vcp_db option" where
  "vcp_get_vdb vcp =
     (case vcp of
        None \<Rightarrow> None
      | Some v \<Rightarrow> (case ldb v of Some d \<Rightarrow> Some d | None \<Rightarrow> None))"

definition vdb_get_vstate :: "bt_vcp_db \<Rightarrow> vol_state option" where
  "vdb_get_vstate vdb =
     (case vcs vdb of
        None \<Rightarrow> None
      | Some s \<Rightarrow> (case vstate s of Some st \<Rightarrow> Some st | None \<Rightarrow> None))"

definition vdb_get_vostate :: "bt_vcp_db \<Rightarrow> vol_offset_state option" where
  "vdb_get_vostate vdb =
     (case vocs vdb of
        None \<Rightarrow> None
      | Some s \<Rightarrow> (case vostate s of Some st \<Rightarrow> Some st | None \<Rightarrow> None))"

text \<open>
  The handlers write through the pointer \<open>vstate\<close> they obtained from
  \<open>vcp->ldb->vcs->vstate\<close> (\<open>vcp->ldb->vocs->vostate\<close>): the store lands in the session's
  local database.
\<close>

definition store_vstate :: "bt_vcp \<Rightarrow> vol_state \<Rightarrow> bt_vcp" where
  "store_vstate vcp st =
     vcp\<lparr>ldb := map_option
        (\<lambda>d. d\<lparr>vcs := map_option (\<lambda>s. s\<lparr>vstate := Some st\<rparr>) (vcs d)\<rparr>) (ldb vcp)\<rparr>"

definition store_vostate :: "bt_vcp \<Rightarrow> vol_offset_state \<Rightarrow> bt_vcp" where
  "store_vostate vcp st =
     vcp\<lparr>ldb := map_option
        (\<lambda>d. d\<lparr>vocs := map_option (\<lambda>s. s\<lparr>vostate := Some st\<rparr>) (vocs d)\<rparr>) (ldb vcp)\<rparr>"

text \<open>
  \<open>gatt_db_attribute_notify (vdb->vcs->vs, vstate, sizeof (struct vol_state), att)\<close> and its
  VOCS twin. The handlers call them after \<open>vdb_get_vstate\<close> (\<open>vdb_get_vostate\<close>) gave a
  state, so \<open>vdb->vcs\<close> (\<open>vdb->vocs\<close>) is not NULL there.
\<close>

definition notify_vs :: "bt_vcp_db \<Rightarrow> vol_state \<Rightarrow> notification list" where
  "notify_vs vdb st = (case vcs vdb of None \<Rightarrow> [] | Some s \<Rightarrow> [(vs s, Vol_state st)])"

definition notify_vos :: "bt_vcp_db \<Rightarrow> vol_offset_state \<Rightarrow> notification list" where
  "notify_vos vdb st =
     (case vocs vdb of None \<Rightarrow> [] | Some s \<Rightarrow> [(vos s, Vol_offset_state st)])"

text \<open>
  \<open>-~x\<close> on a \<open>uint8_t\<close>: the operand is promoted to \<open>int\<close>, complemented and negated there,
  and the assignment keeps the low eight bits.
\<close>

definition incr_counter :: "uint8_t \<Rightarrow> uint8_t" where
  "incr_counter c = word_of_int (- (NOT (uint c)))"

text \<open>
  \<open>le16_to_cpu (req->set_vol_offset)\<close>: the two bytes after the change counter, the low
  byte first, as an \<open>int16_t\<close>.
\<close>

definition le16_to_cpu :: "uint8_t \<Rightarrow> uint8_t \<Rightarrow> int16_t" where
  "le16_to_cpu b0 b1 = word_of_int (uint b0 + 256 * uint b1)"

section \<open>The handlers of the Volume Control Point\<close>

text \<open>
  Each handler receives the session and the operand that follows the opcode. The argument
  \<open>vcs\<close> of the C functions is not read by any of them and is left out.
\<close>

definition vcs_rel_vol_down :: "bt_vcp \<Rightarrow> iovec \<Rightarrow> outcome" where
  "vcs_rel_vol_down vcp iov =
     (case vcp_get_vdb (Some vcp) of
        None \<Rightarrow> (0, vcp, [])
      | Some vdb \<Rightarrow>
         (case vdb_get_vstate vdb of
            None \<Rightarrow> (0, vcp, [])
          | Some vstate0 \<Rightarrow>
             (case iov_pull_mem iov 1 of
                None \<Rightarrow> (0, vcp, [])
              | Some (change_counter, iov') \<Rightarrow>
                 if hd change_counter \<noteq> counter vstate0
                 then (BT_ATT_ERROR_INVALID_CHANGE_COUNTER, vcp, [])
                 else
                   let vstate1 = vstate0\<lparr>vol_set :=
                         word_of_int (max (uint (vol_set vstate0) - VCP_STEP_SIZE) 0)\<rparr>;
                       vstate2 = vstate1\<lparr>counter := incr_counter (counter vstate1)\<rparr>
                   in (0, store_vstate vcp vstate2, notify_vs vdb vstate2))))"

definition vcs_rel_vol_up :: "bt_vcp \<Rightarrow> iovec \<Rightarrow> outcome" where
  "vcs_rel_vol_up vcp iov =
     (case vcp_get_vdb (Some vcp) of
        None \<Rightarrow> (0, vcp, [])
      | Some vdb \<Rightarrow>
         (case vdb_get_vstate vdb of
            None \<Rightarrow> (0, vcp, [])
          | Some vstate0 \<Rightarrow>
             (case iov_pull_mem iov 1 of
                None \<Rightarrow> (0, vcp, [])
              | Some (change_counter, iov') \<Rightarrow>
                 if hd change_counter \<noteq> counter vstate0
                 then (BT_ATT_ERROR_INVALID_CHANGE_COUNTER, vcp, [])
                 else
                   let vstate1 = vstate0\<lparr>vol_set :=
                         word_of_int (min (uint (vol_set vstate0) + VCP_STEP_SIZE) 255)\<rparr>;
                       vstate2 = vstate1\<lparr>counter := incr_counter (counter vstate1)\<rparr>
                   in (0, store_vstate vcp vstate2, notify_vs vdb vstate2))))"

definition vcs_unmute_rel_vol_down :: "bt_vcp \<Rightarrow> iovec \<Rightarrow> outcome" where
  "vcs_unmute_rel_vol_down vcp iov =
     (case vcp_get_vdb (Some vcp) of
        None \<Rightarrow> (0, vcp, [])
      | Some vdb \<Rightarrow>
         (case vdb_get_vstate vdb of
            None \<Rightarrow> (0, vcp, [])
          | Some vstate0 \<Rightarrow>
             (case iov_pull_mem iov 1 of
                None \<Rightarrow> (0, vcp, [])
              | Some (change_counter, iov') \<Rightarrow>
                 if hd change_counter \<noteq> counter vstate0
                 then (BT_ATT_ERROR_INVALID_CHANGE_COUNTER, vcp, [])
                 else
                   let vstate1 = vstate0\<lparr>mute := 0x00\<rparr>;
                       vstate2 = vstate1\<lparr>vol_set :=
                         word_of_int (max (uint (vol_set vstate1) - VCP_STEP_SIZE) 0)\<rparr>;
                       vstate3 = vstate2\<lparr>counter := incr_counter (counter vstate2)\<rparr>
                   in (0, store_vstate vcp vstate3, notify_vs vdb vstate3))))"

definition vcs_unmute_rel_vol_up :: "bt_vcp \<Rightarrow> iovec \<Rightarrow> outcome" where
  "vcs_unmute_rel_vol_up vcp iov =
     (case vcp_get_vdb (Some vcp) of
        None \<Rightarrow> (0, vcp, [])
      | Some vdb \<Rightarrow>
         (case vdb_get_vstate vdb of
            None \<Rightarrow> (0, vcp, [])
          | Some vstate0 \<Rightarrow>
             (case iov_pull_mem iov 1 of
                None \<Rightarrow> (0, vcp, [])
              | Some (change_counter, iov') \<Rightarrow>
                 if hd change_counter \<noteq> counter vstate0
                 then (BT_ATT_ERROR_INVALID_CHANGE_COUNTER, vcp, [])
                 else
                   let vstate1 = vstate0\<lparr>mute := 0x00\<rparr>;
                       vstate2 = vstate1\<lparr>vol_set :=
                         word_of_int (min (uint (vol_set vstate1) + VCP_STEP_SIZE) 255)\<rparr>;
                       vstate3 = vstate2\<lparr>counter := incr_counter (counter vstate2)\<rparr>
                   in (0, store_vstate vcp vstate3, notify_vs vdb vstate3))))"

text \<open>
  \<open>vcs_set_absolute_vol\<close> pulls a whole \<open>struct bt_vcs_ab_vol\<close> (two bytes: the change
  counter, then the volume setting) before it compares the counter.
\<close>

definition vcs_set_absolute_vol :: "bt_vcp \<Rightarrow> iovec \<Rightarrow> outcome" where
  "vcs_set_absolute_vol vcp iov =
     (case vcp_get_vdb (Some vcp) of
        None \<Rightarrow> (0, vcp, [])
      | Some vdb \<Rightarrow>
         (case vdb_get_vstate vdb of
            None \<Rightarrow> (0, vcp, [])
          | Some vstate0 \<Rightarrow>
             (case iov_pull_mem iov 2 of
                None \<Rightarrow> (0, vcp, [])
              | Some (req, iov') \<Rightarrow>
                 if req ! 0 \<noteq> counter vstate0
                 then (BT_ATT_ERROR_INVALID_CHANGE_COUNTER, vcp, [])
                 else
                   let vstate1 = vstate0\<lparr>vol_set := req ! 1\<rparr>;
                       vstate2 = vstate1\<lparr>counter := incr_counter (counter vstate1)\<rparr>
                   in (0, store_vstate vcp vstate2, notify_vs vdb vstate2))))"

definition vcs_unmute :: "bt_vcp \<Rightarrow> iovec \<Rightarrow> outcome" where
  "vcs_unmute vcp iov =
     (case vcp_get_vdb (Some vcp) of
        None \<Rightarrow> (0, vcp, [])
      | Some vdb \<Rightarrow>
         (case vdb_get_vstate vdb of
            None \<Rightarrow> (0, vcp, [])
          | Some vstate0 \<Rightarrow>
             (case iov_pull_mem iov 1 of
                None \<Rightarrow> (0, vcp, [])
              | Some (change_counter, iov') \<Rightarrow>
                 if hd change_counter \<noteq> counter vstate0
                 then (BT_ATT_ERROR_INVALID_CHANGE_COUNTER, vcp, [])
                 else
                   let vstate1 = vstate0\<lparr>mute := 0x00\<rparr>;
                       vstate2 = vstate1\<lparr>counter := incr_counter (counter vstate1)\<rparr>
                   in (0, store_vstate vcp vstate2, notify_vs vdb vstate2))))"

text \<open>\<open>vcs_mute\<close> returns after the two stores: it has no call of \<open>gatt_db_attribute_notify\<close>.\<close>

definition vcs_mute :: "bt_vcp \<Rightarrow> iovec \<Rightarrow> outcome" where
  "vcs_mute vcp iov =
     (case vcp_get_vdb (Some vcp) of
        None \<Rightarrow> (0, vcp, [])
      | Some vdb \<Rightarrow>
         (case vdb_get_vstate vdb of
            None \<Rightarrow> (0, vcp, [])
          | Some vstate0 \<Rightarrow>
             (case iov_pull_mem iov 1 of
                None \<Rightarrow> (0, vcp, [])
              | Some (change_counter, iov') \<Rightarrow>
                 if hd change_counter \<noteq> counter vstate0
                 then (BT_ATT_ERROR_INVALID_CHANGE_COUNTER, vcp, [])
                 else
                   let vstate1 = vstate0\<lparr>mute := 0x01\<rparr>;
                       vstate2 = vstate1\<lparr>counter := incr_counter (counter vstate1)\<rparr>
                   in (0, store_vstate vcp vstate2, []))))"

section \<open>The handler of the Volume Offset Control Point\<close>

text \<open>
  \<open>vocs_set_vol_offset\<close> pulls a whole \<open>struct bt_vocs_set_vol_off\<close> (three bytes: the
  change counter, then the offset). The offset is stored first and compared with the limits
  afterwards, as an \<open>int16_t\<close> promoted to \<open>int\<close>.
\<close>

definition vocs_set_vol_offset :: "bt_vcp \<Rightarrow> iovec \<Rightarrow> outcome" where
  "vocs_set_vol_offset vcp iov =
     (case vcp_get_vdb (Some vcp) of
        None \<Rightarrow> (0, vcp, [])
      | Some vdb \<Rightarrow>
         (case vdb_get_vostate vdb of
            None \<Rightarrow> (0, vcp, [])
          | Some vstate0 \<Rightarrow>
             (case iov_pull_mem iov 3 of
                None \<Rightarrow> (0, vcp, [])
              | Some (req, iov') \<Rightarrow>
                 if req ! 0 \<noteq> vo_counter vstate0
                 then (BT_ATT_ERROR_INVALID_CHANGE_COUNTER, vcp, [])
                 else
                   let vstate1 = vstate0\<lparr>vol_offset := le16_to_cpu (req ! 1) (req ! 2)\<rparr>
                   in
                     if sint (vol_offset vstate1) > VOCS_VOL_OFFSET_UPPER_LIMIT \<or>
                        sint (vol_offset vstate1) < VOCS_VOL_OFFSET_LOWER_LIMIT
                     then (BT_ATT_ERROR_VALUE_OUT_OF_RANGE, store_vostate vcp vstate1, [])
                     else
                       let vstate2 = vstate1\<lparr>vo_counter := incr_counter (vo_counter vstate1)\<rparr>
                       in (0, store_vostate vcp vstate2, notify_vos vdb vstate2))))"

section \<open>The dispatch tables and the control-point writes\<close>

definition BT_VCS_REL_VOL_DOWN :: uint8_t where
  "BT_VCS_REL_VOL_DOWN = 0x00"

definition BT_VCS_REL_VOL_UP :: uint8_t where
  "BT_VCS_REL_VOL_UP = 0x01"

definition BT_VCS_UNMUTE_REL_VOL_DOWN :: uint8_t where
  "BT_VCS_UNMUTE_REL_VOL_DOWN = 0x02"

definition BT_VCS_UNMUTE_REL_VOL_UP :: uint8_t where
  "BT_VCS_UNMUTE_REL_VOL_UP = 0x03"

definition BT_VCS_SET_ABSOLUTE_VOL :: uint8_t where
  "BT_VCS_SET_ABSOLUTE_VOL = 0x04"

definition BT_VCS_UNMUTE :: uint8_t where
  "BT_VCS_UNMUTE = 0x05"

definition BT_VCS_MUTE :: uint8_t where
  "BT_VCS_MUTE = 0x06"

definition BT_VOCS_SET_VOL_OFFSET :: uint8_t where
  "BT_VOCS_SET_VOL_OFFSET = 0x01"

text \<open>
  \<open>struct vcs_op_handler\<close> and \<open>struct vocs_op_handler\<close> have the same four members:
  \<open>str\<close>, \<open>op\<close>, \<open>size\<close> and \<open>func\<close>. An entry of a table is the tuple of the four; the
  closing \<open>{}\<close> of the C arrays is the end of the list.
\<close>

type_synonym op_handler = "string \<times> uint8_t \<times> nat \<times> (bt_vcp \<Rightarrow> iovec \<Rightarrow> outcome)"

text \<open>
  The sizes are \<open>sizeof (uint8_t) = 1\<close> and, for Set Absolute Volume,
  \<open>sizeof (struct bt_vcs_ab_vol) = 2\<close>.
\<close>

definition vcp_handlers :: "op_handler list" where
  "vcp_handlers =
     [(''Relative Volume Down'', BT_VCS_REL_VOL_DOWN, 1, vcs_rel_vol_down),
      (''Relative Volume Up'', BT_VCS_REL_VOL_UP, 1, vcs_rel_vol_up),
      (''Unmute - Relative Volume Down'', BT_VCS_UNMUTE_REL_VOL_DOWN, 1,
         vcs_unmute_rel_vol_down),
      (''Unmute - Relative Volume Up'', BT_VCS_UNMUTE_REL_VOL_UP, 1, vcs_unmute_rel_vol_up),
      (''Set Absolute Volume'', BT_VCS_SET_ABSOLUTE_VOL, 2, vcs_set_absolute_vol),
      (''UnMute'', BT_VCS_UNMUTE, 1, vcs_unmute),
      (''Mute'', BT_VCS_MUTE, 1, vcs_mute)]"

text \<open>
  The entry of Set Volume Offset is declared with \<open>sizeof (uint8_t)\<close>, that is 1, and not
  with the size of \<open>struct bt_vocs_set_vol_off\<close>.
\<close>

definition vocp_handlers :: "op_handler list" where
  "vocp_handlers =
     [(''Set Volume Offset'', BT_VOCS_SET_VOL_OFFSET, 1, vocs_set_vol_offset)]"

text \<open>
  The \<open>for\<close> loop of \<open>vcs_cp_write\<close> and \<open>vocs_cp_write\<close> over a table: \<open>Inl ret\<close> when it
  leaves by \<open>goto respond\<close> (the entry of the opcode wants more bytes than remain),
  \<open>Inr (Some handler)\<close> when it leaves by \<open>break\<close>, \<open>Inr None\<close> when it reaches the end.
\<close>

fun find_handler :: "op_handler list \<Rightarrow> uint8_t \<Rightarrow> iovec \<Rightarrow> uint8_t + op_handler option" where
  "find_handler [] vcp_op iov = Inr None"
| "find_handler ((str, op, size_op, func) # handlers) vcp_op iov =
     (if op \<noteq> vcp_op then find_handler handlers vcp_op iov
      else if length iov < size_op then Inl BT_ATT_ERROR_OPCODE_NOT_SUPPORTED
      else Inr (Some (str, op, size_op, func)))"

text \<open>
  \<open>vcs_cp_write\<close>. The session \<open>vcp\<close> is the one \<open>vcp_get_session (att, vcs->vdb->db)\<close>
  returned for the bearer of the write; the result is the code handed to
  \<open>gatt_db_attribute_write_result\<close>, with the session and the notifications sent. The opcode
  is pulled without a test, after the length was checked, so the first \<open>None\<close> below is
  never taken; it keeps the value \<open>ret\<close> was initialised with.
\<close>

definition vcs_cp_write :: "bt_vcp \<Rightarrow> uint16_t \<Rightarrow> uint8_t list \<Rightarrow> outcome" where
  "vcs_cp_write vcp offset val =
     (if offset \<noteq> 0 then (BT_ATT_ERROR_INVALID_OFFSET, vcp, [])
      else if length val < 1 then (BT_ATT_ERROR_INVALID_ATTRIBUTE_VALUE_LEN, vcp, [])
      else
        (case iov_pull_mem val 1 of
           None \<Rightarrow> (BT_ATT_ERROR_REQUEST_NOT_SUPPORTED, vcp, [])
         | Some (vcp_op, iov) \<Rightarrow>
            (case find_handler vcp_handlers (hd vcp_op) iov of
               Inl ret \<Rightarrow> (ret, vcp, [])
             | Inr (Some (str, op, size_op, func)) \<Rightarrow> func vcp iov
             | Inr None \<Rightarrow> (BT_ATT_ERROR_OPCODE_NOT_SUPPORTED, vcp, []))))"

text \<open>\<open>vocs_cp_write\<close>: the same steps over \<open>vocp_handlers\<close>.\<close>

definition vocs_cp_write :: "bt_vcp \<Rightarrow> uint16_t \<Rightarrow> uint8_t list \<Rightarrow> outcome" where
  "vocs_cp_write vcp offset val =
     (if offset \<noteq> 0 then (BT_ATT_ERROR_INVALID_OFFSET, vcp, [])
      else if length val < 1 then (BT_ATT_ERROR_INVALID_ATTRIBUTE_VALUE_LEN, vcp, [])
      else
        (case iov_pull_mem val 1 of
           None \<Rightarrow> (BT_ATT_ERROR_REQUEST_NOT_SUPPORTED, vcp, [])
         | Some (vcp_op, iov) \<Rightarrow>
            (case find_handler vocp_handlers (hd vcp_op) iov of
               Inl ret \<Rightarrow> (ret, vcp, [])
             | Inr (Some (str, op, size_op, func)) \<Rightarrow> func vcp iov
             | Inr None \<Rightarrow> (BT_ATT_ERROR_OPCODE_NOT_SUPPORTED, vcp, []))))"

text \<open>
  The state a write of the session acts on: what \<open>vcp_get_vdb\<close> followed by
  \<open>vdb_get_vstate\<close> (\<open>vdb_get_vostate\<close>) yields, \<open>None\<close> when a handler would stop at
  "not available".
\<close>

definition vcp_vstate :: "bt_vcp \<Rightarrow> vol_state option" where
  "vcp_vstate vcp =
     (case vcp_get_vdb (Some vcp) of None \<Rightarrow> None | Some vdb \<Rightarrow> vdb_get_vstate vdb)"

definition vcp_vostate :: "bt_vcp \<Rightarrow> vol_offset_state option" where
  "vcp_vostate vcp =
     (case vcp_get_vdb (Some vcp) of None \<Rightarrow> None | Some vdb \<Rightarrow> vdb_get_vostate vdb)"

text \<open>
  The characteristic a handler notifies: \<open>vdb->vcs->vs\<close> (\<open>vdb->vocs->vos\<close>) of the session's
  local database.
\<close>

definition vcp_vs :: "bt_vcp \<Rightarrow> nat option" where
  "vcp_vs vcp =
     (case vcp_get_vdb (Some vcp) of None \<Rightarrow> None | Some vdb \<Rightarrow> map_option vs (vcs vdb))"

definition vcp_vos :: "bt_vcp \<Rightarrow> nat option" where
  "vcp_vos vcp =
     (case vcp_get_vdb (Some vcp) of None \<Rightarrow> None | Some vdb \<Rightarrow> map_option vos (vocs vdb))"

text \<open>A series of Volume Control Point writes at offset 0, one after the other.\<close>

fun vcs_cp_writes :: "bt_vcp \<Rightarrow> uint8_t list list \<Rightarrow> bt_vcp" where
  "vcs_cp_writes vcp [] = vcp"
| "vcs_cp_writes vcp (val # vals) = vcs_cp_writes (fst (snd (vcs_cp_write vcp 0 val))) vals"

section \<open>Sessions: attach and detach\<close>

text \<open>
  \<open>struct bt_vcp_cb\<close>: a registered pair of callbacks. The function pointers \<open>attached\<close>
  and \<open>detached\<close> are addresses of application code, \<open>None\<close> when NULL: \<open>bt_vcp_register\<close>
  refuses an entry only when both are NULL, so either of them may be.
\<close>

record bt_vcp_cb =
  cb_id :: nat
  attached :: "nat option"
  detached :: "nat option"
  user_data :: nat

text \<open>
  The calls made into other modules: \<open>bt_gatt_client_unref (client)\<close>, and
  \<open>cb->detached (vcp, cb->user_data)\<close> of a registered entry.
\<close>

datatype call = Gatt_client_unref "nat option" | Detached bt_vcp_cb nat

text \<open>A call through a NULL function pointer: the program does not go on.\<close>

datatype fault = Null_function_call

text \<open>
  The file-scope queues \<open>sessions\<close> and \<open>vcp_cbs\<close> (a queue that was never created holds
  nothing), the sessions by address, and the calls made into other modules, in order.
\<close>

record globals =
  sessions :: "nat list"
  vcp_cbs :: "bt_vcp_cb list"
  heap :: "nat \<Rightarrow> bt_vcp"
  calls :: "call list"

text \<open>
  Modelled from the spec: \<open>queue_remove\<close> belongs to src/shared/queue.c, which is not
  among the sources at hand; section 4.3 has detach remove "the session from the active
  set". It unlinks the first entry that holds the pointer and tells whether there was one.
\<close>

fun queue_remove :: "nat list \<Rightarrow> nat \<Rightarrow> bool \<times> nat list" where
  "queue_remove [] d = (False, [])"
| "queue_remove (e # es) d =
     (if e = d then (True, es)
      else (case queue_remove es d of (found, es') \<Rightarrow> (found, e # es')))"

text \<open>
  \<open>vcp_detached\<close> calls \<open>cb->detached\<close> with no test of the pointer. \<open>cs\<close> are the calls made
  so far.
\<close>

definition vcp_detached :: "bt_vcp_cb \<Rightarrow> nat \<Rightarrow> call list \<Rightarrow> fault + call list" where
  "vcp_detached cb vcp cs =
     (case detached cb of
        None \<Rightarrow> Inl Null_function_call
      | Some f \<Rightarrow> Inr (cs @ [Detached cb vcp]))"

text \<open>
  Modelled from the spec: \<open>queue_foreach\<close> belongs to src/shared/queue.c as well; section
  4.3 has detach fire "the Detach observers". \<open>queue_foreach (vcp_cbs, vcp_detached, vcp)\<close>
  calls \<open>vcp_detached\<close> on the entries of the queue, from the head on.
\<close>

fun queue_foreach_vcp_detached ::
    "bt_vcp_cb list \<Rightarrow> nat \<Rightarrow> call list \<Rightarrow> fault + call list" where
  "queue_foreach_vcp_detached [] vcp cs = Inr cs"
| "queue_foreach_vcp_detached (cb # cbs) vcp cs =
     (case vcp_detached cb vcp cs of
        Inl f \<Rightarrow> Inl f
      | Inr cs' \<Rightarrow> queue_foreach_vcp_detached cbs vcp cs')"

text \<open>
  \<open>bt_vcp_detach\<close>: nothing happens when the session is not in the queue; otherwise the
  client is released, the field is cleared and the callbacks run.
\<close>

definition bt_vcp_detach :: "nat \<Rightarrow> globals \<Rightarrow> fault + globals" where
  "bt_vcp_detach vcp g =
     (case queue_remove (sessions g) vcp of
        (False, _) \<Rightarrow> Inr g
      | (True, q) \<Rightarrow>
         (case queue_foreach_vcp_detached (vcp_cbs g) vcp
                 (calls g @ [Gatt_client_unref (client (heap g vcp))]) of
            Inl f \<Rightarrow> Inl f
          | Inr cs \<Rightarrow>
             Inr (g\<lparr>sessions := q,
                    heap := (heap g)(vcp := (heap g vcp)\<lparr>client := None\<rparr>),
                    calls := cs\<rparr>)))"

text \<open>A further call of \<open>bt_vcp_detach\<close>, made when the one before has returned.\<close>

definition detach_again :: "nat \<Rightarrow> fault + globals \<Rightarrow> fault + globals" where
  "detach_again vcp r = (case r of Inl f \<Rightarrow> Inl f | Inr g \<Rightarrow> bt_vcp_detach vcp g)"

text \<open>
  \<open>bt_vcp_attach\<close>, as far as the queue of sessions and the field \<open>client\<close> go: the session
  is pushed on every call, before any test. \<open>clone\<close> is what \<open>bt_gatt_client_clone\<close> returns.
  The discovery that follows a first attach with a client reads the remote database and
  touches neither \<open>sessions\<close> nor \<open>client\<close>; it is not part of this model.
\<close>

definition bt_vcp_attach :: "nat \<Rightarrow> nat option \<Rightarrow> nat option \<Rightarrow> globals \<Rightarrow> bool \<times> globals" where
  "bt_vcp_attach vcp cl clone g =
     (let g1 = g\<lparr>sessions := sessions g @ [vcp]\<rparr> in
      case cl of
        None \<Rightarrow> (True, g1)
      | Some c \<Rightarrow>
         if client (heap g1 vcp) \<noteq> None then (False, g1)
         else
           let g2 = g1\<lparr>heap := (heap g1)(vcp := (heap g1 vcp)\<lparr>client := clone\<rparr>)\<rparr>
           in if clone = None then (False, g2) else (True, g2))"

section \<open>Sessions used in the examples\<close>

definition RESET_VOLUME_SETTING :: uint8_t where
  "RESET_VOLUME_SETTING = 0x00"

definition USERSET_VOLUME_SETTING :: uint8_t where
  "USERSET_VOLUME_SETTING = 0x01"

text \<open>
  The contents of a \<open>struct bt_vcp_db\<close> as \<open>vcp_db_new\<close> leaves it for a database that is not
  NULL: \<open>vocs_new\<close> and \<open>vcs_new\<close> allocate both states with \<open>new0\<close>, so every field is zero,
  and set the volume flag to \<open>USERSET_VOLUME_SETTING\<close>. The arguments are the
  characteristics the GATT database hands back for Volume State and Volume Offset State.
\<close>

definition fresh_vdb :: "nat \<Rightarrow> nat \<Rightarrow> bt_vcp_db" where
  "fresh_vdb vs_attr vos_attr =
     \<lparr>vcs = Some \<lparr>vstate = Some \<lparr>vol_set = 0, mute = 0, counter = 0\<rparr>,
                   vol_flag = USERSET_VOLUME_SETTING, vs = vs_attr\<rparr>,
      vocs = Some \<lparr>vostate = Some \<lparr>vol_offset = 0, vo_counter = 0\<rparr>, vos = vos_attr\<rparr>\<rparr>"

text \<open>
  The session \<open>vcp_get_session\<close> creates for a bearer on such a database
  (\<open>bt_vcp_new (db, NULL)\<close>, then \<open>vcp->att = att\<close>).
\<close>

definition initial_vcp :: bt_vcp where
  "initial_vcp = \<lparr>ldb = Some (fresh_vdb 3 9), client = None, att = Some 1\<rparr>"

text \<open>
  The same session with the states of scenarios A to C of section 8: Volume State
  (setting 10, not muted, counter 5) and Volume Offset State (offset 0, counter 3).
\<close>

definition scenario_vcp :: bt_vcp where
  "scenario_vcp =
     store_vostate (store_vstate initial_vcp \<lparr>vol_set = 10, mute = 0, counter = 5\<rparr>)
       \<lparr>vol_offset = 0, vo_counter = 3\<rparr>"

text \<open>Scenario D: the setting is 255; both counters are 255 as well, about to wrap.\<close>

definition scenario_d_vcp :: bt_vcp where
  "scenario_d_vcp =
     store_vostate (store_vstate initial_vcp \<lparr>vol_set = 255, mute = 1, counter = 255\<rparr>)
       \<lparr>vol_offset = 0, vo_counter = 255\<rparr>"




section \<open>Arithmetic of the stores\<close>

lemma incr_counter_eq: "incr_counter c = c + 1"
  by (simp add: incr_counter_def not_int_def)

lemma vol_down_eq:
  "(word_of_int (max (uint v - VCP_STEP_SIZE) 0) :: uint8_t) = (if v = 0 then 0 else v - 1)"
proof (cases "v = 0")
  case True
  then show ?thesis by (simp add: VCP_STEP_SIZE_def)
next
  case False
  then have "0 < uint v"
    by (metis unsigned_0 word_less_iff_unsigned unat_gt_0)
  then have "max (uint v - 1) 0 = uint v - 1" by simp
  with False show ?thesis by (simp add: VCP_STEP_SIZE_def)
qed

lemma vol_up_eq:
  "(word_of_int (min (uint v + VCP_STEP_SIZE) 255) :: uint8_t) = (if v = 255 then 255 else v + 1)"
proof (cases "v = 255")
  case True
  then show ?thesis by (simp add: VCP_STEP_SIZE_def)
next
  case False
  have "uint v < 256" using uint_bounded [of v] by simp
  moreover have "uint v \<noteq> 255" using False
    by (metis word_of_int_numeral word_of_int_uint)
  ultimately have "min (uint v + 1) 255 = uint v + 1" by simp
  with False show ?thesis by (simp add: VCP_STEP_SIZE_def)
qed

text \<open>
  Every \<open>int16_t\<close> is the offset of some write: the low byte first, then the high byte.
\<close>

lemma le16_to_cpu_sint:
  assumes "- 32768 \<le> v" and "v < 32768"
  shows "sint (le16_to_cpu (word_of_int v) (word_of_int (v div 256))) = v"
proof -
  have lo: "uint (word_of_int v :: uint8_t) = v mod 256"
    by (simp add: uint_word_of_int take_bit_eq_mod)
  have hi: "uint (word_of_int (v div 256) :: uint8_t) = v div 256 mod 256"
    by (simp add: uint_word_of_int take_bit_eq_mod)
  have "v mod 256 + 256 * (v div 256 mod 256) = v mod 65536"
    using zmod_zmult2_eq [of 256 v 256] by simp
  then have "le16_to_cpu (word_of_int v) (word_of_int (v div 256))
      = (word_of_int (v mod 65536) :: int16_t)"
    by (simp add: le16_to_cpu_def lo hi)
  also have "\<dots> = word_of_int v"
    by (simp add: word_of_int_eq_iff take_bit_eq_mod)
  finally have "sint (le16_to_cpu (word_of_int v) (word_of_int (v div 256)))
      = sint (word_of_int v :: int16_t)"
    by simp
  also have "\<dots> = v"
    using assms by (simp add: sint_sbintrunc' signed_take_bit_int_eq_self_iff)
  finally show ?thesis .
qed

lemma vcp_vstateD:
  "vcp_vstate vcp = Some st \<Longrightarrow>
     \<exists>vdb s. ldb vcp = Some vdb \<and> vcs vdb = Some s \<and> vstate s = Some st"
  by (auto simp: vcp_vstate_def vcp_get_vdb_def vdb_get_vstate_def split: option.splits)

lemma vcp_vostateD:
  "vcp_vostate vcp = Some st \<Longrightarrow>
     \<exists>vdb s. ldb vcp = Some vdb \<and> vocs vdb = Some s \<and> vostate s = Some st"
  by (auto simp: vcp_vostate_def vcp_get_vdb_def vdb_get_vostate_def split: option.splits)

lemma vcp_vstate_store:
  "vcp_vstate vcp = Some st \<Longrightarrow> vcp_vstate (store_vstate vcp st') = Some st'"
  by (auto simp: vcp_vstate_def vcp_get_vdb_def vdb_get_vstate_def store_vstate_def
      split: option.splits)

lemma vcp_vostate_store:
  "vcp_vostate vcp = Some st \<Longrightarrow> vcp_vostate (store_vostate vcp st') = Some st'"
  by (auto simp: vcp_vostate_def vcp_get_vdb_def vdb_get_vostate_def store_vostate_def
      split: option.splits)

lemmas handler_sub_defs =
  vcp_get_vdb_def vdb_get_vstate_def vdb_get_vostate_def iov_pull_mem_def
  notify_vs_def notify_vos_def incr_counter_eq vol_down_eq vol_up_eq Let_def
  vcp_vstate_def vcp_vs_def vcp_vos_def vcp_vostate_def

lemma vcs_rel_vol_down_eq:
  assumes "vcp_vstate vcp = Some st" and "vcp_vs vcp = Some a"
  shows "vcs_rel_vol_down vcp (c # rest) =
     (if c \<noteq> counter st then (BT_ATT_ERROR_INVALID_CHANGE_COUNTER, vcp, [])
      else (0, store_vstate vcp (st\<lparr>vol_set := (if vol_set st = 0 then 0 else vol_set st - 1),
                                    counter := counter st + 1\<rparr>),
            [(a, Vol_state (st\<lparr>vol_set := (if vol_set st = 0 then 0 else vol_set st - 1),
                                    counter := counter st + 1\<rparr>))]))"
  using assms
  by (auto simp: vcs_rel_vol_down_def handler_sub_defs split: option.splits)

lemma vcs_rel_vol_up_eq:
  assumes "vcp_vstate vcp = Some st" and "vcp_vs vcp = Some a"
  shows "vcs_rel_vol_up vcp (c # rest) =
     (if c \<noteq> counter st then (BT_ATT_ERROR_INVALID_CHANGE_COUNTER, vcp, [])
      else (0, store_vstate vcp (st\<lparr>vol_set := (if vol_set st = 255 then 255 else vol_set st + 1),
                                    counter := counter st + 1\<rparr>),
            [(a, Vol_state (st\<lparr>vol_set := (if vol_set st = 255 then 255 else vol_set st + 1),
                                    counter := counter st + 1\<rparr>))]))"
  using assms
  by (auto simp: vcs_rel_vol_up_def handler_sub_defs split: option.splits)

lemma vcs_unmute_rel_vol_down_eq:
  assumes "vcp_vstate vcp = Some st" and "vcp_vs vcp = Some a"
  shows "vcs_unmute_rel_vol_down vcp (c # rest) =
     (if c \<noteq> counter st then (BT_ATT_ERROR_INVALID_CHANGE_COUNTER, vcp, [])
      else (0, store_vstate vcp (st\<lparr>mute := 0,
                                    vol_set := (if vol_set st = 0 then 0 else vol_set st - 1),
                                    counter := counter st + 1\<rparr>),
            [(a, Vol_state (st\<lparr>mute := 0,
                                    vol_set := (if vol_set st = 0 then 0 else vol_set st - 1),
                                    counter := counter st + 1\<rparr>))]))"
  using assms
  by (auto simp: vcs_unmute_rel_vol_down_def handler_sub_defs split: option.splits)

lemma vcs_unmute_rel_vol_up_eq:
  assumes "vcp_vstate vcp = Some st" and "vcp_vs vcp = Some a"
  shows "vcs_unmute_rel_vol_up vcp (c # rest) =
     (if c \<noteq> counter st then (BT_ATT_ERROR_INVALID_CHANGE_COUNTER, vcp, [])
      else (0, store_vstate vcp (st\<lparr>mute := 0,
                                    vol_set := (if vol_set st = 255 then 255 else vol_set st + 1),
                                    counter := counter st + 1\<rparr>),
            [(a, Vol_state (st\<lparr>mute := 0,
                                    vol_set := (if vol_set st = 255 then 255 else vol_set st + 1),
                                    counter := counter st + 1\<rparr>))]))"
  using assms
  by (auto simp: vcs_unmute_rel_vol_up_def handler_sub_defs split: option.splits)

lemma vcs_set_absolute_vol_eq:
  assumes "vcp_vstate vcp = Some st" and "vcp_vs vcp = Some a"
  shows "vcs_set_absolute_vol vcp (c # v # rest) =
     (if c \<noteq> counter st then (BT_ATT_ERROR_INVALID_CHANGE_COUNTER, vcp, [])
      else (0, store_vstate vcp (st\<lparr>vol_set := v, counter := counter st + 1\<rparr>),
            [(a, Vol_state (st\<lparr>vol_set := v, counter := counter st + 1\<rparr>))]))"
  using assms
  by (auto simp: vcs_set_absolute_vol_def handler_sub_defs split: option.splits)

lemma vcs_unmute_eq:
  assumes "vcp_vstate vcp = Some st" and "vcp_vs vcp = Some a"
  shows "vcs_unmute vcp (c # rest) =
     (if c \<noteq> counter st then (BT_ATT_ERROR_INVALID_CHANGE_COUNTER, vcp, [])
      else (0, store_vstate vcp (st\<lparr>mute := 0, counter := counter st + 1\<rparr>),
            [(a, Vol_state (st\<lparr>mute := 0, counter := counter st + 1\<rparr>))]))"
  using assms
  by (auto simp: vcs_unmute_def handler_sub_defs split: option.splits)

lemma vcs_mute_eq:
  assumes "vcp_vstate vcp = Some st"
  shows "vcs_mute vcp (c # rest) =
     (if c \<noteq> counter st then (BT_ATT_ERROR_INVALID_CHANGE_COUNTER, vcp, [])
      else (0, store_vstate vcp (st\<lparr>mute := 1, counter := counter st + 1\<rparr>), []))"
  using assms
  by (auto simp: vcs_mute_def handler_sub_defs split: option.splits)

lemma vocs_set_vol_offset_eq:
  assumes "vcp_vostate vcp = Some st" and "vcp_vos vcp = Some a"
  shows "vocs_set_vol_offset vcp (c # lo # hi # rest) =
     (if c \<noteq> vo_counter st then (BT_ATT_ERROR_INVALID_CHANGE_COUNTER, vcp, [])
      else if 255 < sint (le16_to_cpu lo hi) \<or> sint (le16_to_cpu lo hi) < - 255
      then (BT_ATT_ERROR_VALUE_OUT_OF_RANGE,
            store_vostate vcp (st\<lparr>vol_offset := le16_to_cpu lo hi\<rparr>), [])
      else (0, store_vostate vcp (st\<lparr>vol_offset := le16_to_cpu lo hi,
                                     vo_counter := vo_counter st + 1\<rparr>),
            [(a, Vol_offset_state (st\<lparr>vol_offset := le16_to_cpu lo hi,
                                     vo_counter := vo_counter st + 1\<rparr>))]))"
  using assms
  by (auto simp: vocs_set_vol_offset_def handler_sub_defs VOCS_VOL_OFFSET_UPPER_LIMIT_def
      VOCS_VOL_OFFSET_LOWER_LIMIT_def split: option.splits)

lemma vcp_vs_ex: "vcp_vstate vcp = Some st \<Longrightarrow> \<exists>a. vcp_vs vcp = Some a"
  by (auto simp: vcp_vstate_def vcp_vs_def vcp_get_vdb_def vdb_get_vstate_def split: option.splits)

lemma vcp_vos_ex: "vcp_vostate vcp = Some st \<Longrightarrow> \<exists>a. vcp_vos vcp = Some a"
  by (auto simp: vcp_vostate_def vcp_vos_def vcp_get_vdb_def vdb_get_vostate_def split: option.splits)

lemmas table_defs =
  vcp_handlers_def vocp_handlers_def BT_VCS_REL_VOL_DOWN_def BT_VCS_REL_VOL_UP_def
  BT_VCS_UNMUTE_REL_VOL_DOWN_def BT_VCS_UNMUTE_REL_VOL_UP_def BT_VCS_SET_ABSOLUTE_VOL_def
  BT_VCS_UNMUTE_def BT_VCS_MUTE_def BT_VOCS_SET_VOL_OFFSET_def

lemma vcs_cp_write_Cons:
  "vcs_cp_write vcp 0 (b # iov) =
     (case find_handler vcp_handlers b iov of
        Inl ret \<Rightarrow> (ret, vcp, [])
      | Inr (Some (str, op, size_op, func)) \<Rightarrow> func vcp iov
      | Inr None \<Rightarrow> (BT_ATT_ERROR_OPCODE_NOT_SUPPORTED, vcp, []))"
  by (simp add: vcs_cp_write_def iov_pull_mem_def)

lemma vocs_cp_write_Cons:
  "vocs_cp_write vcp 0 (b # iov) =
     (case find_handler vocp_handlers b iov of
        Inl ret \<Rightarrow> (ret, vcp, [])
      | Inr (Some (str, op, size_op, func)) \<Rightarrow> func vcp iov
      | Inr None \<Rightarrow> (BT_ATT_ERROR_OPCODE_NOT_SUPPORTED, vcp, []))"
  by (simp add: vocs_cp_write_def iov_pull_mem_def)

lemma vcs_cp_write_ops:
  "vcs_cp_write vcp 0 (0 # c # rest) = vcs_rel_vol_down vcp (c # rest)"
  "vcs_cp_write vcp 0 (1 # c # rest) = vcs_rel_vol_up vcp (c # rest)"
  "vcs_cp_write vcp 0 (2 # c # rest) = vcs_unmute_rel_vol_down vcp (c # rest)"
  "vcs_cp_write vcp 0 (3 # c # rest) = vcs_unmute_rel_vol_up vcp (c # rest)"
  "vcs_cp_write vcp 0 (4 # c # v # rest) = vcs_set_absolute_vol vcp (c # v # rest)"
  "vcs_cp_write vcp 0 (5 # c # rest) = vcs_unmute vcp (c # rest)"
  "vcs_cp_write vcp 0 (6 # c # rest) = vcs_mute vcp (c # rest)"
  by (simp_all add: vcs_cp_write_Cons table_defs)

lemma vocs_cp_write_op:
  "vocs_cp_write vcp 0 (1 # c # rest) = vocs_set_vol_offset vcp (c # rest)"
  by (simp add: vocs_cp_write_Cons table_defs)

lemmas scenario_defs =
  scenario_vcp_def scenario_d_vcp_def initial_vcp_def fresh_vdb_def store_vstate_def
  store_vostate_def vcp_vstate_def vcp_vostate_def vcp_vs_def vcp_vos_def vcp_get_vdb_def
  vdb_get_vstate_def vdb_get_vostate_def

lemma scenario_vcp_states:
  "vcp_vstate initial_vcp = Some \<lparr>vol_set = 0, mute = 0, counter = 0\<rparr>"
  "vcp_vostate initial_vcp = Some \<lparr>vol_offset = 0, vo_counter = 0\<rparr>"
  "vcp_vstate scenario_vcp = Some \<lparr>vol_set = 10, mute = 0, counter = 5\<rparr>"
  "vcp_vostate scenario_vcp = Some \<lparr>vol_offset = 0, vo_counter = 3\<rparr>"
  "vcp_vstate scenario_d_vcp = Some \<lparr>vol_set = 255, mute = 1, counter = 255\<rparr>"
  "vcp_vostate scenario_d_vcp = Some \<lparr>vol_offset = 0, vo_counter = 255\<rparr>"
  "vcp_vs initial_vcp = Some 3" "vcp_vs scenario_vcp = Some 3" "vcp_vs scenario_d_vcp = Some 3"
  "vcp_vos initial_vcp = Some 9" "vcp_vos scenario_vcp = Some 9" "vcp_vos scenario_d_vcp = Some 9"
  by (simp_all add: scenario_defs)

lemma unat_succ_mod: "unat ((c :: uint8_t) + 1) = (unat c + 1) mod 256"
  by (simp add: unat_word_ariths)

lemma uint8_256: "(256 :: uint8_t) = 0"
  by simp

lemma vcs_short_operand_rejected:
  "\<forall>(str, op, size_op, func) \<in> set vcp_handlers.
     length rest < size_op \<longrightarrow>
     vcs_cp_write vcp 0 (op # rest) = (BT_ATT_ERROR_OPCODE_NOT_SUPPORTED, vcp, [])"
  by (auto simp: table_defs vcs_cp_write_Cons)

lemma vocs_short_operand_rejected:
  "\<forall>(str, op, size_op, func) \<in> set vocp_handlers.
     length rest < size_op \<longrightarrow>
     vocs_cp_write vcp 0 (op # rest) = (BT_ATT_ERROR_OPCODE_NOT_SUPPORTED, vcp, [])"
  by (auto simp: table_defs vocs_cp_write_Cons)

lemma vocs_set_vol_offset_short:
  "length iov < 3 \<Longrightarrow> vocs_set_vol_offset vcp iov = (0, vcp, [])"
  by (simp add: vocs_set_vol_offset_def iov_pull_mem_def split: option.splits)

lemma find_handler_in_table:
  "find_handler hs b iov = Inr (Some h) \<Longrightarrow> h \<in> set hs"
  by (induction hs b iov rule: find_handler.induct) (auto split: if_splits)

lemma handlers_keep_vstate:
  assumes "vcp_vstate vcp = Some st"
  shows "\<forall>(str, op, size_op, func) \<in> set vcp_handlers.
           \<exists>st'. vcp_vstate (fst (snd (func vcp iov))) = Some st'"
  using assms
  by (auto simp: table_defs vcs_rel_vol_down_def vcs_rel_vol_up_def
      vcs_unmute_rel_vol_down_def vcs_unmute_rel_vol_up_def vcs_set_absolute_vol_def
      vcs_unmute_def vcs_mute_def vcp_vstate_def vcp_get_vdb_def vdb_get_vstate_def
      store_vstate_def Let_def split: option.splits)

lemma vcs_cp_write_keeps_vstate:
  assumes "vcp_vstate vcp = Some st"
  shows "\<exists>st'. vcp_vstate (fst (snd (vcs_cp_write vcp off val))) = Some st'"
proof (cases "find_handler vcp_handlers (hd (take 1 val)) (drop 1 val)")
  case (Inl ret)
  with assms show ?thesis
    by (simp add: vcs_cp_write_def iov_pull_mem_def)
next
  case (Inr r)
  show ?thesis
  proof (cases r)
    case None
    with Inr assms show ?thesis
      by (simp add: vcs_cp_write_def iov_pull_mem_def)
  next
    case (Some h)
    obtain str op size_op func where h: "h = (str, op, size_op, func)"
      by (cases h) auto
    from Inr Some have "h \<in> set vcp_handlers" by (auto dest: find_handler_in_table)
    with handlers_keep_vstate [OF assms, of "drop 1 val"] h
    have "\<exists>st'. vcp_vstate (fst (snd (func vcp (drop 1 val)))) = Some st'" by auto
    with Inr Some h assms show ?thesis
      by (simp add: vcs_cp_write_def iov_pull_mem_def)
  qed
qed

lemma vcs_cp_writes_keep_vstate:
  "vcp_vstate vcp = Some st \<Longrightarrow> \<exists>st'. vcp_vstate (vcs_cp_writes vcp vals) = Some st'"
proof (induction vals arbitrary: vcp st)
  case Nil
  then show ?case by simp
next
  case (Cons val vals)
  from vcs_cp_write_keeps_vstate [OF Cons.prems, of 0 val]
  obtain st1 where "vcp_vstate (fst (snd (vcs_cp_write vcp 0 val))) = Some st1" by blast
  from Cons.IH [OF this] show ?case by simp
qed

lemma uint_vol_down:
  "uint (if v = 0 then 0 else v - 1 :: uint8_t) = max (uint v - 1) 0"
proof -
  have "uint v < 256" using uint_bounded [of v] by simp
  then have b: "0 \<le> max (uint v - 1) 0" "max (uint v - 1) 0 < 256" by simp_all
  have "uint (word_of_int (max (uint v - VCP_STEP_SIZE) 0) :: uint8_t) = max (uint v - 1) 0"
    using b by (simp add: VCP_STEP_SIZE_def uint_word_of_int take_bit_eq_mod)
  then show ?thesis by (simp only: vol_down_eq)
qed

lemma uint_vol_up:
  "uint (if v = 255 then 255 else v + 1 :: uint8_t) = min (uint v + 1) 255"
proof -
  have b: "0 \<le> min (uint v + 1) 255" "min (uint v + 1) 255 < 256" by simp_all
  have "uint (word_of_int (min (uint v + VCP_STEP_SIZE) 255) :: uint8_t) = min (uint v + 1) 255"
    using b by (simp add: VCP_STEP_SIZE_def uint_word_of_int take_bit_eq_mod)
  then show ?thesis by (simp only: vol_up_eq)
qed

lemma queue_remove_absent: "d \<notin> set q \<Longrightarrow> queue_remove q d = (False, q)"
  by (induction q) auto

lemma queue_remove_present: "d \<in> set q \<Longrightarrow> queue_remove q d = (True, remove1 d q)"
  by (induction q) auto

lemma remove1_single: "count_list q d \<le> 1 \<Longrightarrow> d \<notin> set (remove1 d q)"
  by (induction q) (auto simp: count_list_0_iff split: if_splits)

lemma queue_foreach_vcp_detached_all:
  "\<forall>cb \<in> set cbs. detached cb \<noteq> None \<Longrightarrow>
     queue_foreach_vcp_detached cbs vcp cs = Inr (cs @ map (\<lambda>cb. Detached cb vcp) cbs)"
  by (induction cbs arbitrary: cs) (auto simp: vcp_detached_def)

lemma bt_vcp_detach_absent:
  "vcp \<notin> set (sessions g) \<Longrightarrow> bt_vcp_detach vcp g = Inr g"
  by (simp add: bt_vcp_detach_def queue_remove_absent)

lemma sessions_bt_vcp_detach:
  "vcp \<in> set (sessions g) \<Longrightarrow> bt_vcp_detach vcp g = Inr g1 \<Longrightarrow>
     sessions g1 = remove1 vcp (sessions g)"
  by (auto simp: bt_vcp_detach_def queue_remove_present split: sum.splits)

lemma bt_vcp_detach_again:
  assumes "count_list (sessions g) vcp \<le> 1"
  shows "detach_again vcp (bt_vcp_detach vcp g) = bt_vcp_detach vcp g"
proof (cases "bt_vcp_detach vcp g")
  case (Inl f)
  then show ?thesis by (simp add: detach_again_def)
next
  case (Inr g1)
  show ?thesis
  proof (cases "vcp \<in> set (sessions g)")
    case False
    then show ?thesis by (simp add: detach_again_def bt_vcp_detach_absent)
  next
    case True
    from assms have "vcp \<notin> set (remove1 vcp (sessions g))" by (rule remove1_single)
    moreover from True Inr have "sessions g1 = remove1 vcp (sessions g)"
      by (rule sessions_bt_vcp_detach)
    ultimately have "vcp \<notin> set (sessions g1)" by simp
    then have "bt_vcp_detach vcp g1 = Inr g1" by (rule bt_vcp_detach_absent)
    with Inr show ?thesis by (simp add: detach_again_def)
  qed
qed

lemma sessions_bt_vcp_attach:
  "sessions (snd (bt_vcp_attach vcp cl clone g)) = sessions g @ [vcp]"
  by (simp add: bt_vcp_attach_def Let_def split: option.splits)

text \<open>
  A session that was not attached, is attached once and detached: a further detach
  changes nothing.
\<close>

lemma detach_again_after_attach:
  assumes "vcp \<notin> set (sessions g)"
  shows "detach_again vcp (bt_vcp_detach vcp (snd (bt_vcp_attach vcp cl clone g)))
     = bt_vcp_detach vcp (snd (bt_vcp_attach vcp cl clone g))"
proof -
  from assms have "count_list (sessions g @ [vcp]) vcp \<le> 1"
    by (simp add: count_list_0_iff)
  then show ?thesis
    by (intro bt_vcp_detach_again) (simp add: sessions_bt_vcp_attach)
qed

text \<open>
  An entry registered with \<open>detached = NULL\<close> stops a detach of an attached session at the
  call through the pointer.
\<close>

lemma bt_vcp_detach_null_callback:
  "vcp \<in> set (sessions g) \<Longrightarrow> cb \<in> set (vcp_cbs g) \<Longrightarrow> detached cb = None \<Longrightarrow>
     bt_vcp_detach vcp g = Inl Null_function_call"
proof -
  have stop: "cb \<in> set cbs \<Longrightarrow> detached cb = None \<Longrightarrow>
      queue_foreach_vcp_detached cbs vcp cs = Inl Null_function_call" for cbs cs
    by (induction cbs arbitrary: cs) (auto simp: vcp_detached_def split: option.splits)
  assume "vcp \<in> set (sessions g)" and "cb \<in> set (vcp_cbs g)" and "detached cb = None"
  then show ?thesis
    by (simp add: bt_vcp_detach_def queue_remove_present stop)
qed

section \<open>Properties of the control points\<close>

text \<open>
  Where the operand holds the bytes the handler pulls (the change counter; followed by the
  setting for Set Absolute Volume, by the two bytes of the offset for Set Volume Offset),
  a leading byte that differs from the stored change counter is rejected by every handler
  of the two tables with InvalidChangeCounter (0x80), and so is the write that dispatched
  it; the session comes back as it was, so setting, mute, offset and counter are unchanged,
  and no notification is sent.
\<close>

lemma full_operand_counter_mismatch:
  "(vcp_vstate vcp = Some st \<longrightarrow> c \<noteq> counter st \<longrightarrow>
      (\<forall>(str, op, size_op, func) \<in> set vcp_handlers.
         size_op \<le> length (c # rest) \<longrightarrow>
         func vcp (c # rest) = (BT_ATT_ERROR_INVALID_CHANGE_COUNTER, vcp, []) \<and>
         vcs_cp_write vcp 0 (op # c # rest) = (BT_ATT_ERROR_INVALID_CHANGE_COUNTER, vcp, [])))
   \<and> (vcp_vostate vcp = Some ost \<longrightarrow> c' \<noteq> vo_counter ost \<longrightarrow>
      (\<forall>(str, op, size_op, func) \<in> set vocp_handlers.
         func vcp (c' # lo # hi # rest') = (BT_ATT_ERROR_INVALID_CHANGE_COUNTER, vcp, []) \<and>
         vocs_cp_write vcp 0 (op # c' # lo # hi # rest')
           = (BT_ATT_ERROR_INVALID_CHANGE_COUNTER, vcp, [])))"
proof (intro conjI impI)
  assume st: "vcp_vstate vcp = Some st" and c: "c \<noteq> counter st"
  from st obtain a where a: "vcp_vs vcp = Some a" using vcp_vs_ex by blast
  note eqs = vcs_rel_vol_down_eq [OF st a] vcs_rel_vol_up_eq [OF st a]
    vcs_unmute_rel_vol_down_eq [OF st a] vcs_unmute_rel_vol_up_eq [OF st a]
    vcs_set_absolute_vol_eq [OF st a] vcs_unmute_eq [OF st a] vcs_mute_eq [OF st]
  show "\<forall>(str, op, size_op, func) \<in> set vcp_handlers.
         size_op \<le> length (c # rest) \<longrightarrow>
         func vcp (c # rest) = (BT_ATT_ERROR_INVALID_CHANGE_COUNTER, vcp, []) \<and>
         vcs_cp_write vcp 0 (op # c # rest) = (BT_ATT_ERROR_INVALID_CHANGE_COUNTER, vcp, [])"
    using c by (auto simp: table_defs vcs_cp_write_ops eqs Suc_le_length_iff)
next
  assume st: "vcp_vostate vcp = Some ost" and c: "c' \<noteq> vo_counter ost"
  from st obtain a where a: "vcp_vos vcp = Some a" using vcp_vos_ex by blast
  show "\<forall>(str, op, size_op, func) \<in> set vocp_handlers.
         func vcp (c' # lo # hi # rest') = (BT_ATT_ERROR_INVALID_CHANGE_COUNTER, vcp, []) \<and>
         vocs_cp_write vcp 0 (op # c' # lo # hi # rest')
           = (BT_ATT_ERROR_INVALID_CHANGE_COUNTER, vcp, [])"
    using c by (simp add: table_defs vocs_cp_write_op vocs_set_vol_offset_eq [OF st a])
qed

lemma full_operand_counter_mismatch_example:
  "vcs_rel_vol_down scenario_vcp [4, 7] = (0x80, scenario_vcp, []) \<and>
   vcs_cp_write scenario_vcp 0 [0, 4, 7] = (0x80, scenario_vcp, []) \<and>
   vcs_set_absolute_vol scenario_vcp [4, 7] = (0x80, scenario_vcp, []) \<and>
   vcs_cp_write scenario_vcp 0 [4, 4, 7] = (0x80, scenario_vcp, []) \<and>
   vcs_cp_write scenario_vcp 0 [6, 4, 7] = (0x80, scenario_vcp, []) \<and>
   vocs_set_vol_offset scenario_vcp [9, 1, 0] = (0x80, scenario_vcp, []) \<and>
   vocs_cp_write scenario_vcp 0 [1, 9, 1, 0] = (0x80, scenario_vcp, [])"
  using full_operand_counter_mismatch [where vcp = scenario_vcp
      and st = "\<lparr>vol_set = 10, mute = 0, counter = 5\<rparr>" and c = 4 and rest = "[7]"
      and ost = "\<lparr>vol_offset = 0, vo_counter = 3\<rparr>" and c' = 9 and lo = 1 and hi = 0
      and rest' = "[]"]
  by (simp add: scenario_vcp_states table_defs BT_ATT_ERROR_INVALID_CHANGE_COUNTER_def)

text \<open>
  The scenarios of section 8. A: Relative Volume Down with counter 5 on the state
  (10, not muted, 5) gives (9, not muted, 6) and success. B: the same write with counter 4
  is answered with InvalidChangeCounter and changes nothing. C: Set Volume Offset to 257
  is answered with ValueOutOfRange. D: Relative Volume Up at setting 255 leaves 255 and
  increments the counter. E: a write of no byte is answered with InvalidAttributeValueLen.
\<close>

lemma scenario_A:
  "vcs_cp_write scenario_vcp 0 [0x00, 5]
     = (0, store_vstate scenario_vcp \<lparr>vol_set = 9, mute = 0, counter = 6\<rparr>,
        [(3, Vol_state \<lparr>vol_set = 9, mute = 0, counter = 6\<rparr>)])"
  by (simp add: vcs_cp_write_ops scenario_vcp_states vcs_rel_vol_down_eq)

lemma scenario_B:
  "vcs_cp_write scenario_vcp 0 [0x00, 4] = (0x80, scenario_vcp, [])"
  by (simp add: vcs_cp_write_ops scenario_vcp_states vcs_rel_vol_down_eq
      BT_ATT_ERROR_INVALID_CHANGE_COUNTER_def)

lemma scenario_C:
  "vocs_cp_write scenario_vcp 0 [0x01, 3, 0x01, 0x01]
     = (0x82, store_vostate scenario_vcp \<lparr>vol_offset = 257, vo_counter = 3\<rparr>, [])"
  by (simp add: vocs_cp_write_op scenario_vcp_states vocs_set_vol_offset_eq le16_to_cpu_def
      BT_ATT_ERROR_VALUE_OUT_OF_RANGE_def)

lemma scenario_D:
  "vcs_cp_write scenario_d_vcp 0 [0x01, 255]
     = (0, store_vstate scenario_d_vcp \<lparr>vol_set = 255, mute = 1, counter = 0\<rparr>,
        [(3, Vol_state \<lparr>vol_set = 255, mute = 1, counter = 0\<rparr>)])"
  by (simp add: vcs_cp_write_ops scenario_vcp_states vcs_rel_vol_up_eq uint8_256)

lemma scenario_E:
  "vcs_cp_write scenario_vcp 0 [] = (0x0D, scenario_vcp, []) \<and>
   vocs_cp_write scenario_vcp 0 [] = (0x0D, scenario_vcp, [])"
  by (simp add: vcs_cp_write_def vocs_cp_write_def
      BT_ATT_ERROR_INVALID_ATTRIBUTE_VALUE_LEN_def)

text \<open>
  The Volume Offset Control Point hands any operand of at least one byte to
  \<open>vocs_set_vol_offset\<close>. With one or two bytes the handler cannot pull its structure and
  returns 0 before it looks at the counter.
\<close>

lemma vocs_short_operand_any:
  "rest \<noteq> [] \<Longrightarrow> length rest < 3 \<Longrightarrow>
     vocs_cp_write vcp 0 (BT_VOCS_SET_VOL_OFFSET # rest) = (0, vcp, [])"
  by (cases rest)
    (simp_all add: BT_VOCS_SET_VOL_OFFSET_def vocs_cp_write_op vocs_set_vol_offset_short)

text \<open>
  C1. The claim has every handler answer an operand whose leading byte differs from the
  stored change counter with InvalidChangeCounter (0x80). On the Volume Offset State
  (offset 0, counter 3), \<open>vocs_set_vol_offset\<close> is handed the operand \<open>[9]\<close> of the write
  \<open>[0x01, 9]\<close>, and the operand \<open>[9, 1]\<close> of the write \<open>[0x01, 9, 1]\<close>: it returns 0, so the
  write with the stale counter 9 is answered with success. The state is left as it was and
  nothing is notified.
\<close>

theorem stale_counter_accepted:
  "vcp_vostate scenario_vcp = Some \<lparr>vol_offset = 0, vo_counter = 3\<rparr> \<and>
   vocs_set_vol_offset scenario_vcp [9] = (0, scenario_vcp, []) \<and>
   vocs_cp_write scenario_vcp 0 [0x01, 9] = (0, scenario_vcp, []) \<and>
   vocs_set_vol_offset scenario_vcp [9, 1] = (0, scenario_vcp, []) \<and>
   vocs_cp_write scenario_vcp 0 [0x01, 9, 1] = (0, scenario_vcp, []) \<and>
   BT_ATT_ERROR_INVALID_CHANGE_COUNTER = 0x80"
  by (simp add: scenario_vcp_states vocs_cp_write_op vocs_set_vol_offset_short
      BT_ATT_ERROR_INVALID_CHANGE_COUNTER_def)

text \<open>
  C2. For every opcode of the Volume Control Point table, a write at offset 0 that carries
  the operand of the opcode with the stored change counter in front succeeds (code 0) and
  leaves the stored counter at the old counter plus 1 modulo 256, so 255 becomes 0. The
  same holds for Set Volume Offset when the requested offset lies in [-255, 255].
\<close>

theorem matching_counter_increments:
  "(vcp_vstate vcp = Some st \<longrightarrow>
      (\<forall>(str, op, size_op, func) \<in> set vcp_handlers.
         size_op \<le> length (counter st # rest) \<longrightarrow>
         (\<exists>vcp' ns st'.
            vcs_cp_write vcp 0 (op # counter st # rest) = (0, vcp', ns) \<and>
            vcp_vstate vcp' = Some st' \<and>
            unat (counter st') = (unat (counter st) + 1) mod 256 \<and>
            (counter st = 255 \<longrightarrow> counter st' = 0))))
   \<and> (vcp_vostate vcp = Some ost \<longrightarrow>
      - 255 \<le> sint (le16_to_cpu lo hi) \<longrightarrow> sint (le16_to_cpu lo hi) \<le> 255 \<longrightarrow>
      (\<forall>(str, op, size_op, func) \<in> set vocp_handlers.
         (\<exists>vcp' ns ost'.
            vocs_cp_write vcp 0 (op # vo_counter ost # lo # hi # rest') = (0, vcp', ns) \<and>
            vcp_vostate vcp' = Some ost' \<and>
            unat (vo_counter ost') = (unat (vo_counter ost) + 1) mod 256 \<and>
            (vo_counter ost = 255 \<longrightarrow> vo_counter ost' = 0))))"
proof (intro conjI impI)
  assume st: "vcp_vstate vcp = Some st"
  from st obtain a where a: "vcp_vs vcp = Some a" using vcp_vs_ex by blast
  note eqs = vcs_rel_vol_down_eq [OF st a] vcs_rel_vol_up_eq [OF st a]
    vcs_unmute_rel_vol_down_eq [OF st a] vcs_unmute_rel_vol_up_eq [OF st a]
    vcs_set_absolute_vol_eq [OF st a] vcs_unmute_eq [OF st a] vcs_mute_eq [OF st]
  show "\<forall>(str, op, size_op, func) \<in> set vcp_handlers.
         size_op \<le> length (counter st # rest) \<longrightarrow>
         (\<exists>vcp' ns st'.
            vcs_cp_write vcp 0 (op # counter st # rest) = (0, vcp', ns) \<and>
            vcp_vstate vcp' = Some st' \<and>
            unat (counter st') = (unat (counter st) + 1) mod 256 \<and>
            (counter st = 255 \<longrightarrow> counter st' = 0))"
    by (auto simp: table_defs vcs_cp_write_ops eqs Suc_le_length_iff
        vcp_vstate_store [OF st] unat_succ_mod)
next
  assume st: "vcp_vostate vcp = Some ost"
    and lo: "- 255 \<le> sint (le16_to_cpu lo hi)" and hi: "sint (le16_to_cpu lo hi) \<le> 255"
  from st obtain a where a: "vcp_vos vcp = Some a" using vcp_vos_ex by blast
  show "\<forall>(str, op, size_op, func) \<in> set vocp_handlers.
         (\<exists>vcp' ns ost'.
            vocs_cp_write vcp 0 (op # vo_counter ost # lo # hi # rest') = (0, vcp', ns) \<and>
            vcp_vostate vcp' = Some ost' \<and>
            unat (vo_counter ost') = (unat (vo_counter ost) + 1) mod 256 \<and>
            (vo_counter ost = 255 \<longrightarrow> vo_counter ost' = 0))"
    using lo hi
    by (auto simp: table_defs vocs_cp_write_op vocs_set_vol_offset_eq [OF st a]
        vcp_vostate_store [OF st] unat_succ_mod)
qed

theorem matching_counter_increments_witness:
  "(\<exists>vcp' ns st'.
      vcs_cp_write scenario_vcp 0 [0, 5, 7] = (0, vcp', ns) \<and>
      vcp_vstate vcp' = Some st' \<and> unat (counter st') = 6) \<and>
   (\<exists>vcp' ns st'.
      vcs_cp_write scenario_vcp 0 [4, 5, 7] = (0, vcp', ns) \<and>
      vcp_vstate vcp' = Some st' \<and> unat (counter st') = 6) \<and>
   (\<exists>vcp' ns st'.
      vcs_cp_write scenario_d_vcp 0 [6, 255] = (0, vcp', ns) \<and>
      vcp_vstate vcp' = Some st' \<and> unat (counter st') = 0 \<and> counter st' = 0) \<and>
   (\<exists>vcp' ns ost'.
      vocs_cp_write scenario_d_vcp 0 [1, 255, 1, 0] = (0, vcp', ns) \<and>
      vcp_vostate vcp' = Some ost' \<and> unat (vo_counter ost') = 0 \<and> vo_counter ost' = 0)"
  using matching_counter_increments [where vcp = scenario_vcp
      and st = "\<lparr>vol_set = 10, mute = 0, counter = 5\<rparr>" and rest = "[7]"
      and ost = "\<lparr>vol_offset = 0, vo_counter = 3\<rparr>" and lo = 1 and hi = 0 and rest' = "[]"]
    matching_counter_increments [where vcp = scenario_d_vcp
      and st = "\<lparr>vol_set = 255, mute = 1, counter = 255\<rparr>" and rest = "[]"
      and ost = "\<lparr>vol_offset = 0, vo_counter = 255\<rparr>" and lo = 1 and hi = 0 and rest' = "[]"]
  by (simp add: scenario_vcp_states table_defs le16_to_cpu_def)

text \<open>
  C3. The claim has a write with a known opcode and fewer operand bytes than the opcode
  needs return OpcodeNotSupported, three bytes being needed for Set Volume Offset. The
  entry of \<open>vocp_handlers\<close> asks for one byte only: a Set Volume Offset write with one or two
  operand bytes reaches \<open>vocs_set_vol_offset\<close>, which cannot pull its three bytes and returns
  0. On the Volume Offset State (offset 0, counter 3) the writes \<open>[0x01, 3]\<close> and
  \<open>[0x01, 3, 0x01]\<close> are answered with success; the state is left as it was.
\<close>

theorem vocs_short_operand_accepted:
  "vocs_cp_write scenario_vcp 0 [0x01, 3] = (0, scenario_vcp, []) \<and>
   vocs_cp_write scenario_vcp 0 [0x01, 3, 0x01] = (0, scenario_vcp, []) \<and>
   BT_ATT_ERROR_OPCODE_NOT_SUPPORTED = 0x81"
  by (simp add: vocs_cp_write_op vocs_set_vol_offset_short
      BT_ATT_ERROR_OPCODE_NOT_SUPPORTED_def)

text \<open>
  C4. In \<open>vocs_set_vol_offset\<close>, when the counter matches and the requested offset lies
  outside [-255, 255], the handler returns ValueOutOfRange, the stored offset is the
  requested value (the store precedes the check and is not undone), the change counter
  is the old one, and no notification is sent.
\<close>

theorem out_of_range_offset_is_stored:
  "vcp_vostate vcp = Some ost \<longrightarrow>
   (sint (le16_to_cpu lo hi) < - 255 \<or> 255 < sint (le16_to_cpu lo hi)) \<longrightarrow>
   (\<exists>vcp'.
      vocs_set_vol_offset vcp (vo_counter ost # lo # hi # rest)
        = (BT_ATT_ERROR_VALUE_OUT_OF_RANGE, vcp', []) \<and>
      vocs_cp_write vcp 0 (BT_VOCS_SET_VOL_OFFSET # vo_counter ost # lo # hi # rest)
        = (BT_ATT_ERROR_VALUE_OUT_OF_RANGE, vcp', []) \<and>
      vcp_vostate vcp' = Some (ost\<lparr>vol_offset := le16_to_cpu lo hi\<rparr>))"
proof (intro impI)
  assume st: "vcp_vostate vcp = Some ost"
    and out: "sint (le16_to_cpu lo hi) < - 255 \<or> 255 < sint (le16_to_cpu lo hi)"
  from st obtain a where a: "vcp_vos vcp = Some a" using vcp_vos_ex by blast
  from out show "\<exists>vcp'.
      vocs_set_vol_offset vcp (vo_counter ost # lo # hi # rest)
        = (BT_ATT_ERROR_VALUE_OUT_OF_RANGE, vcp', []) \<and>
      vocs_cp_write vcp 0 (BT_VOCS_SET_VOL_OFFSET # vo_counter ost # lo # hi # rest)
        = (BT_ATT_ERROR_VALUE_OUT_OF_RANGE, vcp', []) \<and>
      vcp_vostate vcp' = Some (ost\<lparr>vol_offset := le16_to_cpu lo hi\<rparr>)"
    by (auto simp: BT_VOCS_SET_VOL_OFFSET_def vocs_cp_write_op
        vocs_set_vol_offset_eq [OF st a] vcp_vostate_store [OF st])
qed

theorem out_of_range_offset_is_stored_witness:
  "sint (le16_to_cpu 1 1) = 257 \<and>
   (\<exists>vcp'.
      vocs_set_vol_offset scenario_vcp [3, 1, 1] = (0x82, vcp', []) \<and>
      vocs_cp_write scenario_vcp 0 [1, 3, 1, 1] = (0x82, vcp', []) \<and>
      vcp_vostate vcp' = Some \<lparr>vol_offset = 257, vo_counter = 3\<rparr>)"
  using out_of_range_offset_is_stored [where vcp = scenario_vcp
      and ost = "\<lparr>vol_offset = 0, vo_counter = 3\<rparr>" and lo = 1 and hi = 1 and rest = "[]"]
  by (simp add: scenario_vcp_states le16_to_cpu_def BT_VOCS_SET_VOL_OFFSET_def
      BT_ATT_ERROR_VALUE_OUT_OF_RANGE_def)

text \<open>
  C5. A Set Volume Offset write with the stored counter returns ValueOutOfRange (0x82) for
  every requested offset outside [-255, 255]; for every requested offset inside it
  returns 0, stores the offset, increments the counter and notifies the new Volume Offset
  State. The requested offset is the signed value of the two bytes, low byte first, so
  the statement ranges over every offset a write can carry.
\<close>

theorem offset_range_check:
  "vcp_vostate vcp = Some ost \<longrightarrow> vcp_vos vcp = Some a \<longrightarrow>
   ((sint (le16_to_cpu lo hi) < - 255 \<or> 255 < sint (le16_to_cpu lo hi)) \<longrightarrow>
      fst (vocs_cp_write vcp 0 (BT_VOCS_SET_VOL_OFFSET # vo_counter ost # lo # hi # rest))
        = BT_ATT_ERROR_VALUE_OUT_OF_RANGE) \<and>
   (- 255 \<le> sint (le16_to_cpu lo hi) \<and> sint (le16_to_cpu lo hi) \<le> 255 \<longrightarrow>
      vocs_cp_write vcp 0 (BT_VOCS_SET_VOL_OFFSET # vo_counter ost # lo # hi # rest)
        = (0,
           store_vostate vcp
             (ost\<lparr>vol_offset := le16_to_cpu lo hi, vo_counter := vo_counter ost + 1\<rparr>),
           [(a, Vol_offset_state
             (ost\<lparr>vol_offset := le16_to_cpu lo hi, vo_counter := vo_counter ost + 1\<rparr>))]) \<and>
      vcp_vostate (store_vostate vcp
             (ost\<lparr>vol_offset := le16_to_cpu lo hi, vo_counter := vo_counter ost + 1\<rparr>))
        = Some (ost\<lparr>vol_offset := le16_to_cpu lo hi, vo_counter := vo_counter ost + 1\<rparr>))"
proof (intro impI)
  assume st: "vcp_vostate vcp = Some ost" and a: "vcp_vos vcp = Some a"
  show "((sint (le16_to_cpu lo hi) < - 255 \<or> 255 < sint (le16_to_cpu lo hi)) \<longrightarrow>
      fst (vocs_cp_write vcp 0 (BT_VOCS_SET_VOL_OFFSET # vo_counter ost # lo # hi # rest))
        = BT_ATT_ERROR_VALUE_OUT_OF_RANGE) \<and>
   (- 255 \<le> sint (le16_to_cpu lo hi) \<and> sint (le16_to_cpu lo hi) \<le> 255 \<longrightarrow>
      vocs_cp_write vcp 0 (BT_VOCS_SET_VOL_OFFSET # vo_counter ost # lo # hi # rest)
        = (0,
           store_vostate vcp
             (ost\<lparr>vol_offset := le16_to_cpu lo hi, vo_counter := vo_counter ost + 1\<rparr>),
           [(a, Vol_offset_state
             (ost\<lparr>vol_offset := le16_to_cpu lo hi, vo_counter := vo_counter ost + 1\<rparr>))]) \<and>
      vcp_vostate (store_vostate vcp
             (ost\<lparr>vol_offset := le16_to_cpu lo hi, vo_counter := vo_counter ost + 1\<rparr>))
        = Some (ost\<lparr>vol_offset := le16_to_cpu lo hi, vo_counter := vo_counter ost + 1\<rparr>))"
    by (auto simp: BT_VOCS_SET_VOL_OFFSET_def vocs_cp_write_op
        vocs_set_vol_offset_eq [OF st a] vcp_vostate_store [OF st])
qed

theorem offset_range_check_witness:
  "sint (le16_to_cpu 1 1) = 257 \<and>
   fst (vocs_cp_write scenario_vcp 0 [1, 3, 1, 1]) = 0x82 \<and>
   sint (le16_to_cpu 0xF6 0xFF) = - 10 \<and>
   vocs_cp_write scenario_vcp 0 [1, 3, 0xF6, 0xFF]
     = (0, store_vostate scenario_vcp \<lparr>vol_offset = 0xFFF6, vo_counter = 4\<rparr>,
        [(9, Vol_offset_state \<lparr>vol_offset = 0xFFF6, vo_counter = 4\<rparr>)]) \<and>
   vcp_vostate (store_vostate scenario_vcp \<lparr>vol_offset = 0xFFF6, vo_counter = 4\<rparr>)
     = Some \<lparr>vol_offset = 0xFFF6, vo_counter = 4\<rparr>"
  using offset_range_check [where vcp = scenario_vcp
      and ost = "\<lparr>vol_offset = 0, vo_counter = 3\<rparr>" and a = 9 and lo = 1 and hi = 1
      and rest = "[]"]
    offset_range_check [where vcp = scenario_vcp
      and ost = "\<lparr>vol_offset = 0, vo_counter = 3\<rparr>" and a = 9 and lo = "0xF6" and hi = "0xFF"
      and rest = "[]"]
  by (simp add: scenario_vcp_states le16_to_cpu_def BT_VOCS_SET_VOL_OFFSET_def
      BT_ATT_ERROR_VALUE_OUT_OF_RANGE_def)

text \<open>
  C6. After any series of Volume Control Point writes the session still has a Volume
  State and its setting lies in [0, 255]. The setting a Relative Volume Down (plain or
  with Unmute) stores is the old one minus 1, never below 0: the subtraction does not wrap,
  and a Down at 0 leaves 0. The setting a Relative Volume Up (plain or with Unmute) stores
  is the old one plus 1, never above 255, and an Up at 255 leaves 255. In both cases the
  counter is incremented.
\<close>

theorem setting_stays_in_range:
  "vcp_vstate vcp = Some st \<longrightarrow>
   (\<exists>st'. vcp_vstate (vcs_cp_writes vcp vals) = Some st' \<and>
      0 \<le> uint (vol_set st') \<and> uint (vol_set st') \<le> 255) \<and>
   (\<forall>op \<in> {BT_VCS_REL_VOL_DOWN, BT_VCS_UNMUTE_REL_VOL_DOWN}.
      \<exists>vcp' ns st'.
        vcs_cp_write vcp 0 (op # counter st # rest) = (0, vcp', ns) \<and>
        vcp_vstate vcp' = Some st' \<and>
        uint (vol_set st') = max (uint (vol_set st) - 1) 0 \<and>
        (vol_set st = 0 \<longrightarrow> vol_set st' = 0) \<and>
        unat (counter st') = (unat (counter st) + 1) mod 256) \<and>
   (\<forall>op \<in> {BT_VCS_REL_VOL_UP, BT_VCS_UNMUTE_REL_VOL_UP}.
      \<exists>vcp' ns st'.
        vcs_cp_write vcp 0 (op # counter st # rest) = (0, vcp', ns) \<and>
        vcp_vstate vcp' = Some st' \<and>
        uint (vol_set st') = min (uint (vol_set st) + 1) 255 \<and>
        (vol_set st = 255 \<longrightarrow> vol_set st' = 255) \<and>
        unat (counter st') = (unat (counter st) + 1) mod 256)"
proof (intro impI conjI)
  assume st: "vcp_vstate vcp = Some st"
  from st obtain a where a: "vcp_vs vcp = Some a" using vcp_vs_ex by blast
  note eqs = vcs_rel_vol_down_eq [OF st a] vcs_rel_vol_up_eq [OF st a]
    vcs_unmute_rel_vol_down_eq [OF st a] vcs_unmute_rel_vol_up_eq [OF st a]
  from vcs_cp_writes_keep_vstate [OF st, of vals]
  obtain st' where st': "vcp_vstate (vcs_cp_writes vcp vals) = Some st'" by blast
  have "uint (vol_set st') < 2 ^ 8" using uint_bounded [of "vol_set st'"] by simp
  with st' show "\<exists>st'. vcp_vstate (vcs_cp_writes vcp vals) = Some st' \<and>
      0 \<le> uint (vol_set st') \<and> uint (vol_set st') \<le> 255"
    by simp
  show "\<forall>op \<in> {BT_VCS_REL_VOL_DOWN, BT_VCS_UNMUTE_REL_VOL_DOWN}.
      \<exists>vcp' ns st'.
        vcs_cp_write vcp 0 (op # counter st # rest) = (0, vcp', ns) \<and>
        vcp_vstate vcp' = Some st' \<and>
        uint (vol_set st') = max (uint (vol_set st) - 1) 0 \<and>
        (vol_set st = 0 \<longrightarrow> vol_set st' = 0) \<and>
        unat (counter st') = (unat (counter st) + 1) mod 256"
    using uint_vol_down [of "vol_set st"]
    by (simp add: table_defs vcs_cp_write_ops eqs vcp_vstate_store [OF st] unat_succ_mod)
  show "\<forall>op \<in> {BT_VCS_REL_VOL_UP, BT_VCS_UNMUTE_REL_VOL_UP}.
      \<exists>vcp' ns st'.
        vcs_cp_write vcp 0 (op # counter st # rest) = (0, vcp', ns) \<and>
        vcp_vstate vcp' = Some st' \<and>
        uint (vol_set st') = min (uint (vol_set st) + 1) 255 \<and>
        (vol_set st = 255 \<longrightarrow> vol_set st' = 255) \<and>
        unat (counter st') = (unat (counter st) + 1) mod 256"
    using uint_vol_up [of "vol_set st"]
    by (simp add: table_defs vcs_cp_write_ops eqs vcp_vstate_store [OF st] unat_succ_mod)
qed

theorem setting_stays_in_range_witness:
  "(\<exists>st'. vcp_vstate (vcs_cp_writes initial_vcp [[1, 0], [4, 1, 200], [0, 2]]) = Some st' \<and>
      0 \<le> uint (vol_set st') \<and> uint (vol_set st') \<le> 255) \<and>
   (\<exists>vcp' ns st'.
      vcs_cp_write initial_vcp 0 [0, 0] = (0, vcp', ns) \<and>
      vcp_vstate vcp' = Some st' \<and> vol_set st' = 0 \<and> unat (counter st') = 1) \<and>
   (\<exists>vcp' ns st'.
      vcs_cp_write scenario_d_vcp 0 [1, 255] = (0, vcp', ns) \<and>
      vcp_vstate vcp' = Some st' \<and> vol_set st' = 255 \<and> unat (counter st') = 0)"
  using setting_stays_in_range [where vcp = initial_vcp
      and st = "\<lparr>vol_set = 0, mute = 0, counter = 0\<rparr>"
      and vals = "[[1, 0], [4, 1, 200], [0, 2]]" and rest = "[]"]
    setting_stays_in_range [where vcp = scenario_d_vcp
      and st = "\<lparr>vol_set = 255, mute = 1, counter = 255\<rparr>" and vals = "[]" and rest = "[]"]
  by (auto simp: scenario_vcp_states table_defs)

text \<open>
  C7. On either control point a write at an offset other than 0 returns InvalidOffset
  whatever its bytes are, and a write of no byte at offset 0 returns
  InvalidAttributeValueLen; the session comes back as it was and nothing is notified.
\<close>

theorem malformed_write_rejected:
  "(offset \<noteq> 0 \<longrightarrow>
      vcs_cp_write vcp offset val = (BT_ATT_ERROR_INVALID_OFFSET, vcp, []) \<and>
      vocs_cp_write vcp offset val = (BT_ATT_ERROR_INVALID_OFFSET, vcp, [])) \<and>
   vcs_cp_write vcp 0 [] = (BT_ATT_ERROR_INVALID_ATTRIBUTE_VALUE_LEN, vcp, []) \<and>
   vocs_cp_write vcp 0 [] = (BT_ATT_ERROR_INVALID_ATTRIBUTE_VALUE_LEN, vcp, [])"
proof (intro conjI impI)
  assume "offset \<noteq> 0"
  then show "vcs_cp_write vcp offset val = (BT_ATT_ERROR_INVALID_OFFSET, vcp, [])"
    and "vocs_cp_write vcp offset val = (BT_ATT_ERROR_INVALID_OFFSET, vcp, [])"
    by (simp_all add: vcs_cp_write_def vocs_cp_write_def)
next
  show "vcs_cp_write vcp 0 [] = (BT_ATT_ERROR_INVALID_ATTRIBUTE_VALUE_LEN, vcp, [])"
    by (simp add: vcs_cp_write_def)
next
  show "vocs_cp_write vcp 0 [] = (BT_ATT_ERROR_INVALID_ATTRIBUTE_VALUE_LEN, vcp, [])"
    by (simp add: vocs_cp_write_def)
qed

theorem malformed_write_rejected_witness:
  "vcs_cp_write scenario_vcp 1 [0, 5] = (BT_ATT_ERROR_INVALID_OFFSET, scenario_vcp, []) \<and>
   vocs_cp_write scenario_vcp 1 [1, 3, 1, 0] = (BT_ATT_ERROR_INVALID_OFFSET, scenario_vcp, []) \<and>
   vcs_cp_write scenario_vcp 0 [] = (BT_ATT_ERROR_INVALID_ATTRIBUTE_VALUE_LEN, scenario_vcp, [])"
  using malformed_write_rejected [where vcp = scenario_vcp and offset = 1 and val = "[0, 5]"]
    malformed_write_rejected [where vcp = scenario_vcp and offset = 1 and val = "[1, 3, 1, 0]"]
  by simp

text \<open>
  C8. A write at offset 0 whose first byte is no opcode of the table (above 0x06 on the
  Volume Control Point, other than 0x01 on the Volume Offset Control Point) returns
  OpcodeNotSupported; the session comes back as it was and nothing is notified.
\<close>

theorem unknown_opcode_rejected:
  "(6 < op \<longrightarrow>
      vcs_cp_write vcp 0 (op # rest) = (BT_ATT_ERROR_OPCODE_NOT_SUPPORTED, vcp, [])) \<and>
   (op' \<noteq> 1 \<longrightarrow>
      vocs_cp_write vcp 0 (op' # rest') = (BT_ATT_ERROR_OPCODE_NOT_SUPPORTED, vcp, []))"
proof (intro conjI impI)
  assume "6 < op"
  then have "op \<noteq> 0 \<and> op \<noteq> 1 \<and> op \<noteq> 2 \<and> op \<noteq> 3 \<and> op \<noteq> 4 \<and> op \<noteq> 5 \<and> op \<noteq> 6"
    by auto
  then have "find_handler vcp_handlers op rest = Inr None"
    by (simp add: table_defs)
  then show "vcs_cp_write vcp 0 (op # rest) = (BT_ATT_ERROR_OPCODE_NOT_SUPPORTED, vcp, [])"
    by (simp add: vcs_cp_write_Cons)
next
  assume "op' \<noteq> 1"
  then have "find_handler vocp_handlers op' rest' = Inr None"
    by (simp add: table_defs)
  then show "vocs_cp_write vcp 0 (op' # rest') = (BT_ATT_ERROR_OPCODE_NOT_SUPPORTED, vcp, [])"
    by (simp add: vocs_cp_write_Cons)
qed

theorem unknown_opcode_rejected_witness:
  "vcs_cp_write scenario_vcp 0 [7, 5] = (0x81, scenario_vcp, []) \<and>
   vocs_cp_write scenario_vcp 0 [0, 3, 1, 0] = (0x81, scenario_vcp, [])"
  using unknown_opcode_rejected [where vcp = scenario_vcp and op = 7 and rest = "[5]"
      and op' = 0 and rest' = "[3, 1, 0]"]
  by (simp add: BT_ATT_ERROR_OPCODE_NOT_SUPPORTED_def)

text \<open>
  C9. A Volume Control Point write that carries the stored counter and the operand of its
  opcode returns 0 and, for every opcode but Mute, sends exactly one notification: the
  Volume State characteristic with the state as it is stored after the write, counter
  incremented. For Mute the state stored has \<open>mute\<close> set and the counter incremented, and no
  notification is sent.
\<close>

theorem handlers_notify_except_mute:
  "vcp_vstate vcp = Some st \<longrightarrow> vcp_vs vcp = Some a \<longrightarrow>
   (\<forall>(str, op, size_op, func) \<in> set vcp_handlers.
      op \<noteq> BT_VCS_MUTE \<longrightarrow> size_op \<le> length (counter st # rest) \<longrightarrow>
      (\<exists>vcp' st'.
         vcs_cp_write vcp 0 (op # counter st # rest) = (0, vcp', [(a, Vol_state st')]) \<and>
         vcp_vstate vcp' = Some st' \<and> counter st' = counter st + 1)) \<and>
   (\<exists>vcp'.
      vcs_cp_write vcp 0 (BT_VCS_MUTE # counter st # rest) = (0, vcp', []) \<and>
      vcp_vstate vcp' = Some (st\<lparr>mute := 1, counter := counter st + 1\<rparr>))"
proof (intro impI)
  assume st: "vcp_vstate vcp = Some st" and a: "vcp_vs vcp = Some a"
  note eqs = vcs_rel_vol_down_eq [OF st a] vcs_rel_vol_up_eq [OF st a]
    vcs_unmute_rel_vol_down_eq [OF st a] vcs_unmute_rel_vol_up_eq [OF st a]
    vcs_set_absolute_vol_eq [OF st a] vcs_unmute_eq [OF st a] vcs_mute_eq [OF st]
  show "(\<forall>(str, op, size_op, func) \<in> set vcp_handlers.
      op \<noteq> BT_VCS_MUTE \<longrightarrow> size_op \<le> length (counter st # rest) \<longrightarrow>
      (\<exists>vcp' st'.
         vcs_cp_write vcp 0 (op # counter st # rest) = (0, vcp', [(a, Vol_state st')]) \<and>
         vcp_vstate vcp' = Some st' \<and> counter st' = counter st + 1)) \<and>
   (\<exists>vcp'.
      vcs_cp_write vcp 0 (BT_VCS_MUTE # counter st # rest) = (0, vcp', []) \<and>
      vcp_vstate vcp' = Some (st\<lparr>mute := 1, counter := counter st + 1\<rparr>))"
    by (auto simp: table_defs vcs_cp_write_ops eqs Suc_le_length_iff vcp_vstate_store [OF st])
qed

theorem handlers_notify_except_mute_witness:
  "(\<exists>vcp' st'.
      vcs_cp_write scenario_vcp 0 [0, 5] = (0, vcp', [(3, Vol_state st')]) \<and>
      vcp_vstate vcp' = Some st' \<and> counter st' = 6) \<and>
   (\<exists>vcp' st'.
      vcs_cp_write scenario_vcp 0 [5, 5] = (0, vcp', [(3, Vol_state st')]) \<and>
      vcp_vstate vcp' = Some st' \<and> counter st' = 6) \<and>
   (\<exists>vcp'.
      vcs_cp_write scenario_vcp 0 [6, 5] = (0, vcp', []) \<and>
      vcp_vstate vcp' = Some \<lparr>vol_set = 10, mute = 1, counter = 6\<rparr>)"
  using handlers_notify_except_mute [where vcp = scenario_vcp
      and st = "\<lparr>vol_set = 10, mute = 0, counter = 5\<rparr>" and a = 3 and rest = "[]"]
  by (simp add: scenario_vcp_states table_defs)

section \<open>Properties of the sessions\<close>




end
